theory Spec2Isabelle
  imports Complex_Main "HOL-Library.Multiset"
begin

section \<open>Values shared by both versions of the hook\<close>

text \<open>
  The repository holds two versions of \<^verbatim>\<open>usePoolsQuery\<close>: the one in
  \<^verbatim>\<open>src/composables/queries/usePoolsQuery.ts\<close>, which queries through the SDK's
  fallback repository with GraphQL arguments (prefix \<open>gql\<close> below), and the one in
  \<^verbatim>\<open>unnamed/part_000\<close>, which queries the Balancer API (prefix \<open>api\<close> below).
  Record fields carry a short prefix of their record, since both versions use the field
  names \<^verbatim>\<open>first\<close>, \<^verbatim>\<open>skip\<close>, \<^verbatim>\<open>where\<close> and \<^verbatim>\<open>pools\<close>.
\<close>

text \<open>
  A rejected promise or a thrown value. \<open>AllSourcesFailed\<close> is the aggregate failure of
  the fallback repository, holding the failure of every provider in the order tried.
\<close>

datatype error = SourceUnavailable string | AllSourcesFailed "error list"

text \<open>
  A JavaScript number or a \<^verbatim>\<open>BigNumber\<close>: a finite value, an infinity or \<^verbatim>\<open>NaN\<close> (which
  \<^verbatim>\<open>bnum\<close> also gives for a string that is no number). A finite value is given by the
  rational it stands for.
\<close>

datatype number = Num rat | PlusInfinity | MinusInfinity | NaN

text \<open>
  \<^verbatim>\<open>x - y\<close> on numbers and \<^verbatim>\<open>x.minus(y)\<close> on BigNumbers. The BigNumber difference is
  exact. The difference of two finite doubles is rounded; the rounded value has the sign
  of the exact difference and is zero only for equal operands, and a comparator's result
  is read for its sign only, so the exact difference stands for it.
\<close>

fun number_minus :: "number \<Rightarrow> number \<Rightarrow> number" where
  "number_minus NaN y = NaN"
| "number_minus x NaN = NaN"
| "number_minus PlusInfinity PlusInfinity = NaN"
| "number_minus MinusInfinity MinusInfinity = NaN"
| "number_minus PlusInfinity y = PlusInfinity"
| "number_minus MinusInfinity y = MinusInfinity"
| "number_minus (Num a) PlusInfinity = MinusInfinity"
| "number_minus (Num a) MinusInfinity = PlusInfinity"
| "number_minus (Num a) (Num b) = Num (a - b)"

text \<open>
  \<^verbatim>\<open>BigNumber.prototype.toNumber\<close>: the nearest double. A magnitude of at most
  \<open>2\<^sup>-\<^sup>1\<^sup>0\<^sup>7\<^sup>5\<close>, half the smallest positive double, becomes zero; the rounding of a larger
  magnitude keeps the sign and is left out.
\<close>

fun toNumber :: "number \<Rightarrow> number" where
  "toNumber (Num d) = (if \<bar>d\<bar> \<le> 1 / 2 ^ 1075 then Num 0 else Num d)"
| "toNumber x = x"

text \<open>\<^verbatim>\<open>v > 0\<close>; false for \<^verbatim>\<open>NaN\<close>.\<close>

fun is_positive :: "number \<Rightarrow> bool" where
  "is_positive (Num r) = (0 < r)"
| "is_positive PlusInfinity = True"
| "is_positive MinusInfinity = False"
| "is_positive NaN = False"

text \<open>The rational of a finite number (zero for the others).\<close>

fun number_value :: "number \<Rightarrow> rat" where
  "number_value (Num r) = r"
| "number_value x = 0"

text \<open>
  The fields of \<^verbatim>\<open>Pool\<close> that the hook reads. \<open>pool_apr_max\<close> is the number
  \<^verbatim>\<open>pool?.apr?.max\<close> and \<open>pool_totalSwapVolume\<close> is the BigNumber that \<^verbatim>\<open>bnum\<close> reads
  from \<^verbatim>\<open>pool?.totalSwapVolume\<close>; \<open>None\<close> is \<^verbatim>\<open>null\<close> or \<^verbatim>\<open>undefined\<close>.
\<close>

record pool =
  pool_id :: string
  pool_address :: string
  pool_tokensList :: "string list"
  pool_apr_max :: "number option"
  pool_totalSwapVolume :: "number option"

text \<open>
  Constants of \<^verbatim>\<open>@/constants/pools\<close> and of the network configuration, which are not
  part of the sources and are therefore parameters.
\<close>

record Config =
  chainId :: int
  ExcludedPoolTypes :: "string list"
  IncludedPoolTypes :: "string list"
  BlockList :: "string list"
  PerPage :: int
  isBalancerApiDefined :: bool

subsection \<open>JavaScript operators on optional numbers and strings\<close>

text \<open>
  Page sizes and offsets are integers. A number that may be undefined is truthy when it
  is present and not \<^verbatim>\<open>0\<close>; \<open>or_num a b\<close> is \<^verbatim>\<open>a || b\<close>.
\<close>

definition truthy_num :: "int option \<Rightarrow> bool" where
  "truthy_num v = (case v of None \<Rightarrow> False | Some n \<Rightarrow> n \<noteq> 0)"

definition or_num :: "int option \<Rightarrow> int \<Rightarrow> int" where
  "or_num a b = (case a of None \<Rightarrow> b | Some n \<Rightarrow> if n \<noteq> 0 then n else b)"

text \<open>The empty string and \<^verbatim>\<open>undefined\<close> are falsy.\<close>

definition truthy_str :: "string option \<Rightarrow> bool" where
  "truthy_str v = (case v of None \<Rightarrow> False | Some s \<Rightarrow> s \<noteq> [])"

text \<open>\<^verbatim>\<open>xs?.length\<close> as a condition: the list exists and is not empty.\<close>

definition has_length :: "'a list option \<Rightarrow> bool" where
  "has_length v = (case v of None \<Rightarrow> False | Some xs \<Rightarrow> xs \<noteq> [])"

text \<open>
  \<^verbatim>\<open>String.prototype.toLowerCase\<close> on the ASCII range, which holds every character of a
  hexadecimal address: the letters \<open>A\<close> to \<open>Z\<close> (codes 65 to 90) move up by 32.
\<close>

definition lower_char :: "char \<Rightarrow> char" where
  "lower_char c =
     (let n = (of_char c :: nat) in if 65 \<le> n \<and> n \<le> 90 then char_of (n + 32) else c)"

definition toLowerCase :: "string \<Rightarrow> string" where
  "toLowerCase s = map lower_char s"

definition is_upper :: "char \<Rightarrow> bool" where
  "is_upper c = (65 \<le> (of_char c :: nat) \<and> (of_char c :: nat) \<le> 90)"

section \<open>The API version of the hook (\<^verbatim>\<open>unnamed/part_000\<close>)\<close>

subsection \<open>Data\<close>

text \<open>
  \<^verbatim>\<open>PoolFilterOptions\<close> (\<^verbatim>\<open>filterOptions.value\<close>), with the fields the hook reads. Every
  field is optional in the source.
\<close>

record PoolFilterOptions =
  f_tokens :: "string list option"
  f_poolIds :: "string list option"
  f_poolTypes :: "string list option"
  f_sortField :: "string option"
  f_first :: "int option"
  f_pageSize :: "int option"

text \<open>\<^verbatim>\<open>PoolsRepositoryFetchOptions\<close>, as \<^verbatim>\<open>getFetchOptions\<close> fills it.\<close>

record PoolsRepositoryFetchOptions =
  o_first :: "int option"
  o_skip :: "int option"

datatype GqlPoolOrderBy = Apr | Volume24h | TotalLiquidity

datatype GqlPoolOrderDirection = Asc | Desc

text \<open>The \<^verbatim>\<open>where\<close> object of \<^verbatim>\<open>ApiArgs\<close>; \<open>idIn = None\<close> is an absent key.\<close>

record ApiWhere =
  chainIn :: "string list"
  tokensIn :: "string list"
  poolTypeIn :: "string list"
  idNotIn :: "string list"
  idIn :: "string list option"

record ApiArgs =
  a_orderBy :: GqlPoolOrderBy
  a_orderDirection :: GqlPoolOrderDirection
  a_where :: ApiWhere
  a_first :: "int option"
  a_skip :: "int option"

text \<open>
  The helpers and services the hook calls that are not part of the sources:
  \<^verbatim>\<open>mapNetworkToApiChain\<close>, \<^verbatim>\<open>mapPoolTypeToApiType\<close>, \<^verbatim>\<open>tokenTreeLeafs\<close> (applied here to
  the pool that owns the token tree) and \<^verbatim>\<open>balancerAPIService.pools.get\<close>, whose promise
  resolves with pools or rejects.
\<close>

record ApiServices =
  mapNetworkToApiChain :: "int \<Rightarrow> string"
  mapPoolTypeToApiType :: "string \<Rightarrow> string"
  tokenTreeLeafs :: "pool \<Rightarrow> string list"
  pools_get :: "ApiArgs \<Rightarrow> error + pool list"

text \<open>
  The state the hook mutates: \<open>store\<close> is \<^verbatim>\<open>poolsStoreService.pools.value\<close> (\<open>None\<close>
  before the first write) and \<open>injected\<close> lists the addresses handed to
  \<^verbatim>\<open>injectTokens\<close>, in call order.
\<close>

record HookState =
  store :: "pool list option"
  injected :: "string list"

text \<open>\<^verbatim>\<open>PoolsQueryResponse\<close> of this version: \<^verbatim>\<open>{ pools, skip }\<close>.\<close>

record ApiResponse =
  r_pools :: "pool list"
  r_skip :: "int option"

subsection \<open>Building the arguments\<close>

fun convertSortFieldToOrderBy :: "string option \<Rightarrow> GqlPoolOrderBy" where
  "convertSortFieldToOrderBy sortField =
     (if sortField = Some ''apr'' then Apr
      else if sortField = Some ''volume'' then Volume24h
      else TotalLiquidity)"

text \<open>
  \<^verbatim>\<open>getQueryArgs(options)\<close>, lines 75 to 111. The object literal is built first and the four
  conditional assignments follow in the order of the source.
\<close>

definition api_getQueryArgs ::
  "Config \<Rightarrow> ApiServices \<Rightarrow> PoolFilterOptions \<Rightarrow> PoolsRepositoryFetchOptions \<Rightarrow> ApiArgs" where
  "api_getQueryArgs cfg svc filterOptions options =
     (let hasPoolIdFilters = has_length (f_poolIds filterOptions);
          hasPoolTypeFilters = has_length (f_poolTypes filterOptions);
          tokenListFormatted =
            (case f_tokens filterOptions of
               None \<Rightarrow> []
             | Some ts \<Rightarrow> map toLowerCase ts);
          orderBy = convertSortFieldToOrderBy (f_sortField filterOptions);
          w0 = \<lparr> chainIn = [mapNetworkToApiChain svc (chainId cfg)],
                 tokensIn = tokenListFormatted,
                 poolTypeIn = map (mapPoolTypeToApiType svc) (IncludedPoolTypes cfg),
                 idNotIn = BlockList cfg,
                 idIn = None \<rparr>;
          w1 = (if hasPoolTypeFilters
                then w0 \<lparr> poolTypeIn :=
                       map (mapPoolTypeToApiType svc) (the (f_poolTypes filterOptions)) \<rparr>
                else w0);
          w2 = (if hasPoolIdFilters then w1 \<lparr> idIn := f_poolIds filterOptions \<rparr> else w1);
          q0 = \<lparr> a_orderBy = orderBy,
                 a_orderDirection = Desc,
                 a_where = w2,
                 a_first = None,
                 a_skip = None \<rparr>;
          q1 = (if truthy_num (o_first options)
                then q0 \<lparr> a_first := Some (or_num (f_first filterOptions) (the (o_first options))) \<rparr>
                else q0);
          q2 = (if truthy_num (o_skip options) then q1 \<lparr> a_skip := o_skip options \<rparr> else q1)
      in q2)"

text \<open>
  \<^verbatim>\<open>getFetchOptions(pageParam = 0)\<close>, lines 113 to 135: \<^verbatim>\<open>first\<close> is always assigned,
  \<^verbatim>\<open>skip\<close> only for a positive page parameter.
\<close>

definition getFetchOptions :: "Config \<Rightarrow> PoolFilterOptions \<Rightarrow> int option \<Rightarrow> PoolsRepositoryFetchOptions" where
  "getFetchOptions cfg filterOptions pageParam0 =
     (let pageParam = (case pageParam0 of None \<Rightarrow> 0 | Some p \<Rightarrow> p);
          fetchArgs = \<lparr> o_first = Some (or_num (f_pageSize filterOptions) (PerPage cfg)),
                        o_skip = None \<rparr>
      in if pageParam \<noteq> 0 \<and> pageParam > 0
         then fetchArgs \<lparr> o_skip := Some pageParam \<rparr>
         else fetchArgs)"


subsection \<open>The repository and the pool store\<close>

text \<open>
  \<^verbatim>\<open>initializePoolsRepository().fetch(options)\<close>, lines 44 to 57: the pools of the API for
  the built arguments; on success the token addresses of every pool are injected. A
  rejected request leaves the state as it was.
\<close>

definition api_fetch ::
  "Config \<Rightarrow> ApiServices \<Rightarrow> PoolFilterOptions \<Rightarrow> PoolsRepositoryFetchOptions \<Rightarrow> HookState
     \<Rightarrow> (error + pool list) \<times> HookState" where
  "api_fetch cfg svc filterOptions options st =
     (case pools_get svc (api_getQueryArgs cfg svc filterOptions options) of
        Inl e \<Rightarrow> (Inl e, st)
      | Inr pools \<Rightarrow>
          (Inr pools,
           st \<lparr> injected := injected st @
                  concat (map (\<lambda>p. pool_tokensList p @ tokenTreeLeafs svc p @ [pool_address p])
                            pools) \<rparr>))"

text \<open>
  Modelled from the spec: \<^verbatim>\<open>poolsStoreService\<close> (\<^verbatim>\<open>@/services/pool/pools-store.service\<close>)
  is not part of the sources. \<^verbatim>\<open>setPools\<close> replaces the stored set; \<^verbatim>\<open>addPools\<close> appends
  a page to it (``accumulating across pages: successive pages are appended'').
\<close>

definition setPools :: "pool list \<Rightarrow> HookState \<Rightarrow> HookState" where
  "setPools ps st = st \<lparr> store := Some ps \<rparr>"

definition addPools :: "pool list \<Rightarrow> HookState \<Rightarrow> HookState" where
  "addPools ps st = st \<lparr> store := Some ((case store st of None \<Rightarrow> [] | Some old \<Rightarrow> old) @ ps) \<rparr>"

subsection \<open>The client-side sort\<close>

text \<open>
  \<^verbatim>\<open>Array.prototype.sort(compareFn)\<close>: a stable sort; \<^verbatim>\<open>a\<close> moves behind \<^verbatim>\<open>b\<close> only when
  \<^verbatim>\<open>compareFn(a, b) > 0\<close>, and a result of \<^verbatim>\<open>NaN\<close> counts as zero. The model inserts each
  element, from the last to the first, in front of the first element it need not follow.
  For a comparator that is consistent on the elements every stable sort gives this list;
  for any other the order is left to the engine, and the model is one such order.
\<close>

fun sort_insert :: "('a \<Rightarrow> 'a \<Rightarrow> number) \<Rightarrow> 'a \<Rightarrow> 'a list \<Rightarrow> 'a list" where
  "sort_insert compareFn x [] = [x]"
| "sort_insert compareFn x (y # ys) =
     (if is_positive (compareFn x y) then y # sort_insert compareFn x ys else x # y # ys)"

definition array_sort :: "('a \<Rightarrow> 'a \<Rightarrow> number) \<Rightarrow> 'a list \<Rightarrow> 'a list" where
  "array_sort compareFn xs = foldr (sort_insert compareFn) xs []"

text \<open>\<^verbatim>\<open>v ?? 0\<close>.\<close>

definition or_zero :: "number option \<Rightarrow> number" where
  "or_zero v = (case v of None \<Rightarrow> Num 0 | Some x \<Rightarrow> x)"

text \<open>\<^verbatim>\<open>a?.apr?.max ?? 0\<close> and \<^verbatim>\<open>bnum(a?.totalSwapVolume ?? 0)\<close>.\<close>

definition aprMax :: "pool \<Rightarrow> number" where
  "aprMax a = or_zero (pool_apr_max a)"

definition volume :: "pool \<Rightarrow> number" where
  "volume a = or_zero (pool_totalSwapVolume a)"

text \<open>
  \<^verbatim>\<open>customSort(pools)\<close>, lines 137 to 157. The apr comparator returns \<^verbatim>\<open>aprB - aprA\<close>,
  the volume comparator \<^verbatim>\<open>volumeB.minus(volumeA).toNumber()\<close>.
\<close>

definition customSort :: "PoolFilterOptions \<Rightarrow> pool list \<Rightarrow> pool list" where
  "customSort filterOptions pools =
     (let poolsSortField =
            (if truthy_str (f_sortField filterOptions) then the (f_sortField filterOptions)
             else ''totalLiquidity'')
      in if poolsSortField = ''totalLiquidity'' then pools
         else if poolsSortField = ''apr''
           then array_sort (\<lambda>a b. number_minus (aprMax b) (aprMax a)) pools
         else if poolsSortField = ''volume''
           then array_sort (\<lambda>a b. toNumber (number_minus (volume b) (volume a))) pools
         else pools)"

subsection \<open>The query function and its page parameter\<close>

text \<open>
  \<^verbatim>\<open>queryFn({ pageParam = 0 })\<close>, lines 180 to 201. \<^verbatim>\<open>skip\<close> is computed before the
  \<^verbatim>\<open>try\<close> block and is the same in the page of a successful fetch and in the page served
  from the store.
\<close>

definition api_queryFn ::
  "Config \<Rightarrow> ApiServices \<Rightarrow> PoolFilterOptions \<Rightarrow> int option \<Rightarrow> HookState
     \<Rightarrow> (error + ApiResponse) \<times> HookState" where
  "api_queryFn cfg svc filterOptions pageParam0 st =
     (let pageParam = (case pageParam0 of None \<Rightarrow> 0 | Some p \<Rightarrow> p);
          fetchOptions = getFetchOptions cfg filterOptions (Some pageParam);
          skip = or_num (o_first fetchOptions) 0 + or_num (o_skip fetchOptions) 0
      in case api_fetch cfg svc filterOptions fetchOptions st of
           (Inr fetched, st1) \<Rightarrow>
             (let pools = (if \<not> isBalancerApiDefined cfg then customSort filterOptions fetched
                           else fetched)
              in (Inr \<lparr> r_pools = pools, r_skip = Some skip \<rparr>, addPools pools st1))
         | (Inl e, st1) \<Rightarrow>
             (case store st1 of
                None \<Rightarrow> (Inl e, st1)
              | Some savedPools \<Rightarrow>
                  if savedPools \<noteq> []
                  then (Inr \<lparr> r_pools = savedPools, r_skip = Some skip \<rparr>, st1)
                  else (Inl e, st1)))"

text \<open>\<^verbatim>\<open>getNextPageParam: lastPage => lastPage.skip || 0\<close>, line 204.\<close>

definition api_getNextPageParam :: "ApiResponse \<Rightarrow> int" where
  "api_getNextPageParam lastPage = or_num (r_skip lastPage) 0"

text \<open>
  The callback of \<^verbatim>\<open>watch(filterOptions, ...)\<close>, lines 163 to 170: the repository is built
  anew (it holds no state) and the store is set to the empty list.
\<close>

definition onFilterOptionsChange :: "HookState \<Rightarrow> HookState" where
  "onFilterOptionsChange st = setPools [] st"


section \<open>The SDK version of the hook (\<^verbatim>\<open>src/composables/queries/usePoolsQuery.ts\<close>)\<close>

subsection \<open>Data\<close>

text \<open>\<^verbatim>\<open>FilterOptions\<close>, lines 31 to 36; the refs are read through \<^verbatim>\<open>.value\<close>.\<close>

record FilterOptions =
  poolIds :: "string list option"
  poolAddresses :: "string list option"
  isExactTokensList :: "bool option"
  pageSize :: "int option"

text \<open>The filter operations of the SDK's \<^verbatim>\<open>Op\<close> that the hook builds.\<close>

datatype Op =
    Equals "string list"
  | Contains "string list"
  | NotIn "string list"
  | In "string list"
  | GreaterThan rat

text \<open>The \<^verbatim>\<open>where\<close> object of the GraphQL arguments; \<open>w_address = None\<close> is an absent key.\<close>

record GraphQLWhere =
  w_tokensList :: Op
  w_poolType :: Op
  w_totalShares :: Op
  w_id :: Op
  w_address :: "Op option"

record GraphQLArgs =
  g_chainId :: int
  g_first :: "int option"
  g_orderBy :: string
  g_orderDirection :: string
  g_where :: GraphQLWhere
  g_skip :: "string option"

text \<open>\<^verbatim>\<open>PoolsQueryResponse\<close> of this version: \<^verbatim>\<open>{ pools, skip, enabled }\<close>.\<close>

record GqlResponse =
  p_pools :: "pool list"
  p_skip :: "string option"
  p_enabled :: bool

subsection \<open>Building the arguments\<close>

text \<open>
  \<^verbatim>\<open>getQueryArgs(pageParam = '')\<close>, lines 115 to 149. \<open>filterOptions\<close> is itself optional
  (\<^verbatim>\<open>filterOptions?.poolIds?.value.length\<close>). The literal sets \<^verbatim>\<open>first: 10\<close>; the last
  statement deletes it for a non-empty token list.
\<close>

definition gql_getQueryArgs ::
  "Config \<Rightarrow> string list \<Rightarrow> FilterOptions option \<Rightarrow> string option \<Rightarrow> GraphQLArgs" where
  "gql_getQueryArgs cfg tokenList filterOptions pageParam0 =
     (let pageParam = (case pageParam0 of None \<Rightarrow> [] | Some s \<Rightarrow> s);
          tokensListFilterOperation =
            (if Option.bind filterOptions isExactTokensList = Some True then Equals else Contains);
          tokenListFormatted = map toLowerCase tokenList;
          q0 = \<lparr> g_chainId = chainId cfg,
                 g_first = Some 10,
                 g_orderBy = ''totalLiquidity'',
                 g_orderDirection = ''desc'',
                 g_where =
                   \<lparr> w_tokensList = tokensListFilterOperation tokenListFormatted,
                     w_poolType = NotIn (ExcludedPoolTypes cfg),
                     w_totalShares = GreaterThan (1 / 100),
                     w_id = NotIn (BlockList cfg),
                     w_address = None \<rparr>,
                 g_skip = None \<rparr>;
          q1 = (if pageParam \<noteq> [] \<and> length pageParam > 0
                then q0 \<lparr> g_skip := Some pageParam \<rparr> else q0);
          q2 = (if has_length (Option.bind filterOptions poolIds)
                then q1 \<lparr> g_where := (g_where q1)
                       \<lparr> w_id := In (the (Option.bind filterOptions poolIds)) \<rparr> \<rparr>
                else q1);
          q3 = (if has_length (Option.bind filterOptions poolAddresses)
                then q2 \<lparr> g_where := (g_where q2)
                       \<lparr> w_address := Some (In (the (Option.bind filterOptions poolAddresses))) \<rparr> \<rparr>
                else q2);
          q4 = (if length tokenList > 0 then q3 \<lparr> g_first := None \<rparr> else q3)
      in q4)"

subsection \<open>The repositories\<close>

text \<open>
  A provider as one call of \<^verbatim>\<open>queryFn\<close> sees it: for the query, the outcome of its
  \<^verbatim>\<open>fetch\<close> (a rejection or a timeout is \<open>Inl\<close>) and the value of its \<^verbatim>\<open>skip\<close> getter
  after that fetch.
\<close>

type_synonym provider = "GraphQLArgs \<Rightarrow> (error + pool list) \<times> string option"

text \<open>
  The SDK repositories and the pool decorator are not part of the sources and are
  parameters. The decorator receives the gauges; prices, currency and token metadata
  are fixed inside the parameter.
\<close>

record SdkServices =
  balancerApiRepository :: provider
  subgraphRepository :: provider
  decorate :: "string list \<Rightarrow> pool list \<Rightarrow> error + pool list"

text \<open>\<^verbatim>\<open>initializeDecoratedAPIRepository\<close>, lines 74 to 88: fetch and skip are passed through.\<close>

definition initializeDecoratedAPIRepository :: "SdkServices \<Rightarrow> provider" where
  "initializeDecoratedAPIRepository svc = (\<lambda>query. balancerApiRepository svc query)"

text \<open>
  \<^verbatim>\<open>initializeDecoratedSubgraphRepository\<close>, lines 90 to 113: the fetched pools are
  decorated with \<^verbatim>\<open>subgraphGauges.value || []\<close>; skip is the subgraph repository's.
\<close>

definition initializeDecoratedSubgraphRepository ::
  "SdkServices \<Rightarrow> string list option \<Rightarrow> provider" where
  "initializeDecoratedSubgraphRepository svc subgraphGauges =
     (\<lambda>query. case subgraphRepository svc query of
        (Inl e, sk) \<Rightarrow> (Inl e, sk)
      | (Inr pools, sk) \<Rightarrow>
          (decorate svc (case subgraphGauges of None \<Rightarrow> [] | Some gs \<Rightarrow> gs) pools, sk))"

text \<open>\<^verbatim>\<open>initializePoolsRepository\<close>, lines 64 to 72: the API first, the subgraph second.\<close>

definition initializePoolsRepository :: "SdkServices \<Rightarrow> string list option \<Rightarrow> provider list" where
  "initializePoolsRepository svc subgraphGauges =
     [initializeDecoratedAPIRepository svc,
      initializeDecoratedSubgraphRepository svc subgraphGauges]"

text \<open>
  Modelled from the spec: \<^verbatim>\<open>PoolsFallbackRepository.fetch\<close> of the SDK is not part of the
  sources. It ``attempts adapters strictly in order; on the first adapter that returns
  successfully, uses its result as the response and exposes its cursor as the authoritative
  cursor; if an adapter fails, tries the next; if all fail, raises an aggregate failure''.
  The result holds the pools, the index of the current provider and that provider's
  \<^verbatim>\<open>skip\<close>; \<open>failures\<close> collects the failures so far, latest first.
\<close>

record FallbackResult =
  fb_pools :: "pool list"
  fb_currentProviderIdx :: nat
  fb_skip :: "string option"

fun fallbackQuery ::
  "provider list \<Rightarrow> GraphQLArgs \<Rightarrow> error list \<Rightarrow> error + FallbackResult" where
  "fallbackQuery [] query failures = Inl (AllSourcesFailed (rev failures))"
| "fallbackQuery (p # ps) query failures =
     (case p query of
        (Inr pools, sk) \<Rightarrow>
          Inr \<lparr> fb_pools = pools, fb_currentProviderIdx = length failures, fb_skip = sk \<rparr>
      | (Inl e, sk) \<Rightarrow> fallbackQuery ps query (e # failures))"

definition fallback_fetch :: "provider list \<Rightarrow> GraphQLArgs \<Rightarrow> error + FallbackResult" where
  "fallback_fetch providers query = fallbackQuery providers query []"

subsection \<open>The query function and its page parameter\<close>

text \<open>
  The body of \<^verbatim>\<open>queryFn\<close> after the repository is built, lines 225 to 242: the pools of
  the fallback repository and \<^verbatim>\<open>currentProvider?.skip ? currentProvider.skip.toString()
  : undefined\<close>. A rejected fetch rejects the query function.
\<close>

definition gql_queryFn_on :: "provider list \<Rightarrow> GraphQLArgs \<Rightarrow> error + GqlResponse" where
  "gql_queryFn_on poolsRepository queryArgs =
     (case fallback_fetch poolsRepository queryArgs of
        Inl e \<Rightarrow> Inl e
      | Inr r \<Rightarrow>
          Inr \<lparr> p_pools = fb_pools r,
                p_skip = (if truthy_str (fb_skip r) then fb_skip r else None),
                p_enabled = True \<rparr>)"

text \<open>\<^verbatim>\<open>queryFn({ pageParam = '' })\<close>, lines 211 to 243.\<close>

definition gql_queryFn ::
  "Config \<Rightarrow> SdkServices \<Rightarrow> string list \<Rightarrow> FilterOptions option \<Rightarrow> string list option
     \<Rightarrow> string option \<Rightarrow> error + GqlResponse" where
  "gql_queryFn cfg svc tokenList filterOptions subgraphGauges pageParam0 =
     (let pageParam = (case pageParam0 of None \<Rightarrow> [] | Some s \<Rightarrow> s);
          queryArgs = gql_getQueryArgs cfg tokenList filterOptions (Some pageParam);
          poolsRepository = initializePoolsRepository svc subgraphGauges
      in gql_queryFn_on poolsRepository queryArgs)"


text \<open>
  Cursors as the spec reads them (``\<open>nextCursor\<close> absent/empty signals end of
  pagination''): an absent cursor and an empty one are the same signal, and two cursors
  are the same when both are that signal or both are the same non-empty string.
\<close>

definition cursor_signal :: "string option \<Rightarrow> string option" where
  "cursor_signal c = (if truthy_str c then c else None)"

definition same_cursor :: "string option \<Rightarrow> string option \<Rightarrow> bool" where
  "same_cursor a b = (cursor_signal a = cursor_signal b)"


section \<open>The pagination controller\<close>

text \<open>
  Modelled from the spec: the controller is the infinite query of the query library,
  which is not part of the sources. It has ``two states: \<open>HasMore\<close> (cursor present or
  first page not yet fetched) and \<open>Exhausted\<close>''; it starts in ``\<open>HasMore\<close> with cursor =
  none''; ``on each successful page fetch, if the response's nextCursor is empty, move to
  \<open>Exhausted\<close>; otherwise remain in \<open>HasMore\<close> with the new cursor''. The next cursor
  is what the hook's \<^verbatim>\<open>getNextPageParam\<close> returns for the page, \<open>None\<close> being
  \<^verbatim>\<open>undefined\<close>.
\<close>

datatype 'c Pagination = HasMore "'c option" | Exhausted

definition initialPagination :: "'c Pagination" where
  "initialPagination = HasMore None"

definition afterPage :: "'c option \<Rightarrow> 'c Pagination" where
  "afterPage nextCursor = (case nextCursor of None \<Rightarrow> Exhausted | Some c \<Rightarrow> HasMore (Some c))"

text \<open>
  The API version under the controller: the hook's state, the pages fetched so far and
  the controller's state. \<open>fetchNextPage\<close> runs \<open>api_queryFn\<close> with the cursor as page
  parameter; a rejected query function adds no page and keeps the cursor.
\<close>

record ApiQuery =
  q_hook :: HookState
  q_pages :: "ApiResponse list"
  q_pagination :: "int Pagination"

definition fetchNextPage :: "Config \<Rightarrow> PoolFilterOptions \<Rightarrow> ApiServices \<Rightarrow> ApiQuery \<Rightarrow> ApiQuery" where
  "fetchNextPage cfg filterOptions svc q =
     (case q_pagination q of
        Exhausted \<Rightarrow> q
      | HasMore cursor \<Rightarrow>
          (case api_queryFn cfg svc filterOptions cursor (q_hook q) of
             (Inr page, st) \<Rightarrow>
               \<lparr> q_hook = st,
                 q_pages = q_pages q @ [page],
                 q_pagination = afterPage (Some (api_getNextPageParam page)) \<rparr>
           | (Inl e, st) \<Rightarrow> q \<lparr> q_hook := st \<rparr>))"

text \<open>Any number of fetch-next calls; each call meets the backend as it is at that time.\<close>

fun fetchNextPages :: "Config \<Rightarrow> PoolFilterOptions \<Rightarrow> ApiServices list \<Rightarrow> ApiQuery \<Rightarrow> ApiQuery" where
  "fetchNextPages cfg filterOptions [] q = q"
| "fetchNextPages cfg filterOptions (svc # svcs) q =
     fetchNextPages cfg filterOptions svcs (fetchNextPage cfg filterOptions svc q)"

text \<open>
  Refetch from start on a change of the filter options: the watch callback runs on the
  hook's state, and the changed query key gives a query with no pages and no cursor.
\<close>

definition refetchFromStart :: "ApiQuery \<Rightarrow> ApiQuery" where
  "refetchFromStart q =
     \<lparr> q_hook = onFilterOptionsChange (q_hook q),
       q_pages = [],
       q_pagination = initialPagination \<rparr>"



section \<open>Example inputs\<close>

definition example_config :: Config where
  "example_config =
     \<lparr> chainId = 1, ExcludedPoolTypes = [''Element''], IncludedPoolTypes = [''Weighted''],
       BlockList = [''0xb10c''], PerPage = 10, isBalancerApiDefined = False \<rparr>"

definition example_pool :: "string \<Rightarrow> rat \<Rightarrow> rat \<Rightarrow> pool" where
  "example_pool i a v =
     \<lparr> pool_id = i, pool_address = i, pool_tokensList = [],
       pool_apr_max = Some (Num a), pool_totalSwapVolume = Some (Num v) \<rparr>"

definition failing_get :: "ApiArgs \<Rightarrow> error + pool list" where
  "failing_get args = Inl (SourceUnavailable ''503'')"

definition example_services :: "(ApiArgs \<Rightarrow> error + pool list) \<Rightarrow> ApiServices" where
  "example_services get =
     \<lparr> mapNetworkToApiChain = (\<lambda>n. ''MAINNET''), mapPoolTypeToApiType = (\<lambda>t. t),
       tokenTreeLeafs = (\<lambda>p. []), pools_get = get \<rparr>"

definition example_filter :: "string list \<Rightarrow> string list option \<Rightarrow> int option \<Rightarrow> PoolFilterOptions" where
  "example_filter ts ids sz =
     \<lparr> f_tokens = Some ts, f_poolIds = ids, f_poolTypes = None, f_sortField = None,
       f_first = None, f_pageSize = sz \<rparr>"

definition example_options :: "string list option \<Rightarrow> int option \<Rightarrow> FilterOptions" where
  "example_options ids sz =
     \<lparr> poolIds = ids, poolAddresses = None, isExactTokensList = None, pageSize = sz \<rparr>"

definition volume_filter :: PoolFilterOptions where
  "volume_filter = example_filter [] None None \<lparr> f_sortField := Some ''volume'' \<rparr>"

definition constant_get :: "pool list \<Rightarrow> ApiArgs \<Rightarrow> error + pool list" where
  "constant_get ps args = Inr ps"

definition saved_state :: HookState where
  "saved_state = \<lparr> store = Some [example_pool ''0xp1'' 1 1], injected = [] \<rparr>"

definition empty_state :: HookState where
  "empty_state = \<lparr> store = None, injected = [] \<rparr>"

definition fresh_query :: ApiQuery where
  "fresh_query = \<lparr> q_hook = empty_state, q_pages = [], q_pagination = initialPagination \<rparr>"

definition example_query :: GraphQLArgs where
  "example_query = gql_getQueryArgs example_config [] None None"

definition failing_provider :: provider where
  "failing_provider query = (Inl (SourceUnavailable ''api down''), Some ''9'')"

definition succeeding_provider :: "pool list \<Rightarrow> string option \<Rightarrow> provider" where
  "succeeding_provider ps cursor query = (Inr ps, cursor)"




section \<open>Properties of the argument builders\<close>

lemma of_char_lower_char:
  "(of_char (lower_char c) :: nat) =
     (if 65 \<le> (of_char c :: nat) \<and> (of_char c :: nat) \<le> 90 then of_char c + 32 else of_char c)"
  by (simp add: lower_char_def Let_def)

lemma lower_char_not_upper: "\<not> is_upper (lower_char c)"
  by (simp add: is_upper_def of_char_lower_char)

lemma toLowerCase_no_upper: "c \<in> set (toLowerCase s) \<Longrightarrow> \<not> is_upper c"
  by (auto simp: toLowerCase_def lower_char_not_upper)

lemma toLowerCase_example: "toLowerCase ''0xAbCdEF'' = ''0xabcdef''"
  by code_simp

text \<open>
  Claim C8. In both versions the token filter of the built arguments holds, position by
  position, the lower-cased form of the input addresses: the API version puts
  \<open>map toLowerCase\<close> of the tokens (of the empty list when there are none) into
  \<open>tokensIn\<close>, the SDK version puts \<open>map toLowerCase\<close> of the token list under the
  \<open>Equals\<close> or \<open>Contains\<close> operation of \<open>tokensList\<close>. No address of the filter
  holds an upper-case letter.
\<close>

theorem token_addresses_lower_cased:
  "tokensIn (a_where (api_getQueryArgs cfg svc filterOptions options)) =
     map toLowerCase (case f_tokens filterOptions of None \<Rightarrow> [] | Some ts \<Rightarrow> ts)
   \<and> w_tokensList (g_where (gql_getQueryArgs cfg tokenList gqlOptions pageParam)) =
     (if Option.bind gqlOptions isExactTokensList = Some True then Equals else Contains)
       (map toLowerCase tokenList)
   \<and> (\<forall>a\<in>set (tokensIn (a_where (api_getQueryArgs cfg svc filterOptions options))).
         \<forall>c\<in>set a. \<not> is_upper c)"
proof -
  have api: "tokensIn (a_where (api_getQueryArgs cfg svc filterOptions options)) =
      map toLowerCase (case f_tokens filterOptions of None \<Rightarrow> [] | Some ts \<Rightarrow> ts)"
    by (simp add: api_getQueryArgs_def Let_def split: option.split)
  have sdk: "w_tokensList (g_where (gql_getQueryArgs cfg tokenList gqlOptions pageParam)) =
      (if Option.bind gqlOptions isExactTokensList = Some True then Equals else Contains)
        (map toLowerCase tokenList)"
    by (simp add: gql_getQueryArgs_def Let_def)
  have lower: "\<forall>a\<in>set (map toLowerCase ts). \<forall>c\<in>set a. \<not> is_upper c" for ts
    using toLowerCase_no_upper by auto
  have "\<forall>a\<in>set (tokensIn (a_where (api_getQueryArgs cfg svc filterOptions options))).
      \<forall>c\<in>set a. \<not> is_upper c"
    unfolding api by (rule lower)
  with api sdk show ?thesis by blast
qed

theorem token_addresses_lower_cased_witness:
  "tokensIn (a_where (api_getQueryArgs example_config (example_services failing_get)
      (example_filter [''0xAbCdEF''] None None) \<lparr> o_first = Some 10, o_skip = None \<rparr>))
     = [''0xabcdef'']
   \<and> w_tokensList (g_where (gql_getQueryArgs example_config [''0xAbCdEF''] None None))
     = Contains [''0xabcdef'']"
  using token_addresses_lower_cased [of example_config "example_services failing_get"
      "example_filter [''0xAbCdEF''] None None" "\<lparr> o_first = Some 10, o_skip = None \<rparr>"
      "[''0xAbCdEF'']" None None]
  by (simp add: example_filter_def toLowerCase_example)

text \<open>
  Claim C10. Whatever the filter options, the fetch options and the page parameter, the
  built arguments order descending: \<open>Desc\<close> in the API version, \<^verbatim>\<open>'desc'\<close> in the SDK
  version. No input reaches the order direction.
\<close>

theorem order_direction_always_desc:
  "a_orderDirection (api_getQueryArgs cfg svc filterOptions options) = Desc
   \<and> g_orderDirection (gql_getQueryArgs cfg tokenList gqlOptions pageParam) = ''desc''"
  by (simp add: api_getQueryArgs_def gql_getQueryArgs_def Let_def)

theorem order_direction_always_desc_witness:
  "a_orderDirection (api_getQueryArgs example_config (example_services failing_get)
      (example_filter [] None None \<lparr> f_sortField := Some ''apr'' \<rparr>)
      \<lparr> o_first = Some 10, o_skip = Some 20 \<rparr>) = Desc
   \<and> g_orderDirection (gql_getQueryArgs example_config [''0xAAA'']
      (Some (example_options (Some [''p1'']) (Some 20))) (Some ''10'')) = ''desc''"
  using order_direction_always_desc [of example_config "example_services failing_get"
      "example_filter [] None None \<lparr> f_sortField := Some ''apr'' \<rparr>"
      "\<lparr> o_first = Some 10, o_skip = Some 20 \<rparr>"
      "[''0xAAA'']" "Some (example_options (Some [''p1'']) (Some 20))" "Some ''10''"]
  by simp


text \<open>
  Claim C6, as amended. With a non-empty list of pool ids the built arguments constrain
  the id by that list. In the SDK version the assignment replaces the block-list
  exclusion on the one \<open>id\<close> key; in the API version it fills \<open>idIn\<close> and \<open>idNotIn\<close>
  keeps the block list.
\<close>

theorem pool_id_allow_list_applied:
  "(gqlOptions = Some fo \<and> poolIds fo = Some ids \<and> ids \<noteq> [] \<longrightarrow>
      w_id (g_where (gql_getQueryArgs cfg tokenList gqlOptions pageParam)) = In ids)
   \<and> (f_poolIds filterOptions = Some ids \<and> ids \<noteq> [] \<longrightarrow>
      idIn (a_where (api_getQueryArgs cfg svc filterOptions options)) = Some ids
      \<and> idNotIn (a_where (api_getQueryArgs cfg svc filterOptions options)) = BlockList cfg)"
  by (simp add: api_getQueryArgs_def gql_getQueryArgs_def has_length_def Let_def)

theorem pool_id_allow_list_applied_witness:
  "w_id (g_where (gql_getQueryArgs example_config []
      (Some (example_options (Some [''0xp1'']) None)) None)) = In [''0xp1'']
   \<and> idIn (a_where (api_getQueryArgs example_config (example_services failing_get)
      (example_filter [] (Some [''0xp1'']) None) \<lparr> o_first = Some 10, o_skip = None \<rparr>))
     = Some [''0xp1'']"
  using pool_id_allow_list_applied [of "Some (example_options (Some [''0xp1'']) None)"
      "example_options (Some [''0xp1'']) None" "[''0xp1'']" example_config "[]" None
      "example_filter [] (Some [''0xp1'']) None" "example_services failing_get"
      "\<lparr> o_first = Some 10, o_skip = None \<rparr>"]
  by (simp add: example_options_def example_filter_def)

text \<open>
  Claim C6 as stated fails in the API version: for the pool ids \<^verbatim>\<open>['0xp1']\<close> and the block
  list \<^verbatim>\<open>['0xb10c']\<close> the built \<open>where\<close> holds the allow-list and the block list at once.
\<close>

theorem api_allow_list_keeps_block_list:
  "idIn (a_where (api_getQueryArgs example_config (example_services failing_get)
      (example_filter [] (Some [''0xp1'']) None) \<lparr> o_first = Some 10, o_skip = None \<rparr>))
     = Some [''0xp1'']
   \<and> idNotIn (a_where (api_getQueryArgs example_config (example_services failing_get)
      (example_filter [] (Some [''0xp1'']) None) \<lparr> o_first = Some 10, o_skip = None \<rparr>))
     = [''0xb10c'']"
  by (simp add: api_getQueryArgs_def has_length_def Let_def example_filter_def
      example_config_def)

text \<open>
  The page-size limit in the SDK version: absent for a non-empty token list, the fixed
  \<open>10\<close> for an empty one, whatever \<open>pageSize\<close> the filter options hold.
\<close>

lemma gql_first_by_token_list:
  "g_first (gql_getQueryArgs cfg tokenList gqlOptions pageParam) =
     (if tokenList \<noteq> [] then None else Some 10)"
  by (simp add: gql_getQueryArgs_def Let_def)

text \<open>
  The page-size limit in the API version: the fetch options always carry \<open>first\<close>, and
  the built arguments carry it whenever it is not zero; the token list is not consulted.
\<close>

lemma api_first_ignores_tokens:
  "a_first (api_getQueryArgs cfg svc filterOptions (getFetchOptions cfg filterOptions pageParam)) =
     (if or_num (f_pageSize filterOptions) (PerPage cfg) \<noteq> 0
      then Some (or_num (f_first filterOptions) (or_num (f_pageSize filterOptions) (PerPage cfg)))
      else None)"
  by (simp add: api_getQueryArgs_def getFetchOptions_def truthy_num_def Let_def)

text \<open>
  Claim C1 at its failing inputs. The API version, for the tokens \<^verbatim>\<open>['0xAAA']\<close> and
  \<^verbatim>\<open>pageSize: 10\<close>, builds arguments with \<^verbatim>\<open>first: 10\<close>, where the claim (and the
  comment at lines 121 and 122) wants no limit. The SDK version, for no tokens and
  \<^verbatim>\<open>pageSize: 20\<close>, builds \<^verbatim>\<open>first: 10\<close>, not the requested \<open>20\<close>.
\<close>

theorem page_size_limit_at_failing_inputs:
  "a_first (api_getQueryArgs example_config (example_services failing_get)
      (example_filter [''0xAAA''] None (Some 10))
      (getFetchOptions example_config (example_filter [''0xAAA''] None (Some 10)) None))
     = Some 10
   \<and> g_first (gql_getQueryArgs example_config []
      (Some (example_options None (Some 20))) None) = Some 10"
  by (simp add: api_getQueryArgs_def getFetchOptions_def gql_getQueryArgs_def truthy_num_def
      or_num_def Let_def example_filter_def example_config_def)

section \<open>Properties of the client-side sort\<close>

lemma mset_sort_insert: "mset (sort_insert f x xs) = add_mset x (mset xs)"
  by (induction xs) auto

lemma mset_array_sort: "mset (array_sort f xs) = mset xs"
  by (induction xs) (auto simp: array_sort_def mset_sort_insert)

lemma set_sort_insert: "set (sort_insert f x xs) = insert x (set xs)"
  by (induction xs) auto

lemma set_array_sort: "set (array_sort f xs) = set xs"
  using mset_array_sort [of f xs] by (metis set_mset_mset)

text \<open>
  When the comparator is positive exactly for a smaller key in front of a larger one,
  on the elements at hand, the result descends by the key.
\<close>

lemma sorted_sort_insert:
  fixes key :: "'a \<Rightarrow> rat"
  assumes "\<forall>y\<in>set xs. is_positive (cmp x y) = (key x < key y)"
    and "sorted_wrt (\<lambda>a b. key a \<ge> key b) xs"
  shows "sorted_wrt (\<lambda>a b. key a \<ge> key b) (sort_insert cmp x xs)"
  using assms by (induction xs) (auto simp: set_sort_insert)

lemma sorted_array_sort:
  fixes key :: "'a \<Rightarrow> rat"
  assumes "\<forall>x\<in>set xs. \<forall>y\<in>set xs. is_positive (cmp x y) = (key x < key y)"
  shows "sorted_wrt (\<lambda>a b. key a \<ge> key b) (array_sort cmp xs)"
  using assms
proof (induction xs)
  case Nil
  then show ?case by (simp add: array_sort_def)
next
  case (Cons x xs)
  have step: "array_sort cmp (x # xs) = sort_insert cmp x (array_sort cmp xs)"
    by (simp add: array_sort_def)
  have "sorted_wrt (\<lambda>a b. key a \<ge> key b) (array_sort cmp xs)"
    using Cons by simp
  moreover have "\<forall>y\<in>set (array_sort cmp xs). is_positive (cmp x y) = (key x < key y)"
    using Cons.prems by (simp add: set_array_sort)
  ultimately show ?case
    unfolding step by (intro sorted_sort_insert) auto
qed

text \<open>The conversion to a double leaves a difference above \<open>2\<^sup>-\<^sup>1\<^sup>0\<^sup>7\<^sup>5\<close> positive, and no other.\<close>

lemma volume_comparator_positive:
  "is_positive (toNumber (number_minus (Num b) (Num a))) = (1 / 2 ^ 1075 < b - a)"
  by auto

lemma mset_customSort: "mset (customSort filterOptions pools) = mset pools"
  by (simp add: customSort_def Let_def mset_array_sort)

lemma customSort_apr_sorted:
  assumes "f_sortField filterOptions = Some ''apr''"
    and "\<forall>p\<in>set pools. aprMax p = Num (key p)"
  shows "sorted_wrt (\<lambda>a b. key a \<ge> key b) (customSort filterOptions pools)"
proof -
  have "\<forall>x\<in>set pools. \<forall>y\<in>set pools.
      is_positive (number_minus (aprMax y) (aprMax x)) = (key x < key y)"
    using assms(2) by simp
  then have "sorted_wrt (\<lambda>a b. key a \<ge> key b)
      (array_sort (\<lambda>a b. number_minus (aprMax b) (aprMax a)) pools)"
    by (rule sorted_array_sort)
  then show ?thesis
    using assms(1) by (simp add: customSort_def truthy_str_def Let_def)
qed

lemma customSort_volume_sorted:
  assumes "f_sortField filterOptions = Some ''volume''"
    and "\<forall>p\<in>set pools. volume p = Num (key p)"
    and "\<forall>p\<in>set pools. \<forall>q\<in>set pools. key p = key q \<or> 1 / 2 ^ 1075 < \<bar>key p - key q\<bar>"
  shows "sorted_wrt (\<lambda>a b. key a \<ge> key b) (customSort filterOptions pools)"
proof -
  have "is_positive (toNumber (number_minus (volume y) (volume x))) = (key x < key y)"
    if "x \<in> set pools" and "y \<in> set pools" for x y
  proof -
    have apart: "key x = key y \<or> 1 / 2 ^ 1075 < \<bar>key x - key y\<bar>"
      using assms(3) that by blast
    have "is_positive (toNumber (number_minus (volume y) (volume x)))
        = (1 / 2 ^ 1075 < key y - key x)"
      using assms(2) that by (simp only: volume_comparator_positive)
    also have "\<dots> = (key x < key y)"
    proof
      assume "1 / 2 ^ 1075 < key y - key x"
      moreover have "(0::rat) < 1 / 2 ^ 1075" by simp
      ultimately show "key x < key y" by linarith
    next
      assume "key x < key y"
      with apart show "1 / 2 ^ 1075 < key y - key x" by (simp add: abs_if split: if_splits)
    qed
    finally show ?thesis .
  qed
  then have "sorted_wrt (\<lambda>a b. key a \<ge> key b)
      (array_sort (\<lambda>a b. toNumber (number_minus (volume b) (volume a))) pools)"
    by (intro sorted_array_sort) blast
  then show ?thesis
    using assms(1) by (simp add: customSort_def truthy_str_def Let_def)
qed

text \<open>
  Claim C5, as amended. The result is always a rearrangement of the list. For the sort
  field \<^verbatim>\<open>totalLiquidity\<close> (or none) the list is returned as it is. For \<^verbatim>\<open>apr\<close>, when every
  \<^verbatim>\<open>apr.max\<close> is a finite number, the result descends by \<^verbatim>\<open>apr.max\<close>. For \<^verbatim>\<open>volume\<close>,
  when every \<^verbatim>\<open>totalSwapVolume\<close> is a finite decimal and any two of them are equal or more
  than \<open>2\<^sup>-\<^sup>1\<^sup>0\<^sup>7\<^sup>5\<close> apart, the result descends by \<^verbatim>\<open>totalSwapVolume\<close>, the difference
  being taken on exact decimals.
\<close>

theorem customSort_orders:
  "mset (customSort filterOptions pools) = mset pools
   \<and> (f_sortField filterOptions = None \<or> f_sortField filterOptions = Some ''totalLiquidity''
      \<longrightarrow> customSort filterOptions pools = pools)
   \<and> (f_sortField filterOptions = Some ''apr'' \<and> (\<forall>p\<in>set pools. aprMax p = Num (key p))
      \<longrightarrow> sorted_wrt (\<lambda>a b. key a \<ge> key b) (customSort filterOptions pools))
   \<and> (f_sortField filterOptions = Some ''volume'' \<and> (\<forall>p\<in>set pools. volume p = Num (key p))
        \<and> (\<forall>p\<in>set pools. \<forall>q\<in>set pools. key p = key q \<or> 1 / 2 ^ 1075 < \<bar>key p - key q\<bar>)
      \<longrightarrow> sorted_wrt (\<lambda>a b. key a \<ge> key b) (customSort filterOptions pools))"
proof (intro conjI impI)
  show "mset (customSort filterOptions pools) = mset pools"
    by (rule mset_customSort)
next
  assume "f_sortField filterOptions = None \<or> f_sortField filterOptions = Some ''totalLiquidity''"
  then show "customSort filterOptions pools = pools"
    by (auto simp: customSort_def truthy_str_def Let_def)
next
  assume "f_sortField filterOptions = Some ''apr'' \<and> (\<forall>p\<in>set pools. aprMax p = Num (key p))"
  then show "sorted_wrt (\<lambda>a b. key a \<ge> key b) (customSort filterOptions pools)"
    using customSort_apr_sorted by blast
next
  assume "f_sortField filterOptions = Some ''volume'' \<and> (\<forall>p\<in>set pools. volume p = Num (key p))
        \<and> (\<forall>p\<in>set pools. \<forall>q\<in>set pools. key p = key q \<or> 1 / 2 ^ 1075 < \<bar>key p - key q\<bar>)"
  then show "sorted_wrt (\<lambda>a b. key a \<ge> key b) (customSort filterOptions pools)"
    using customSort_volume_sorted by blast
qed

text \<open>
  The scenario of the spec: the volumes \<open>10\<close>, \<open>10\<^sup>1\<^sup>8\<close> and \<open>5\<close> come out as
  \<open>10\<^sup>1\<^sup>8\<close>, \<open>10\<close>, \<open>5\<close>.
\<close>

theorem customSort_orders_witness:
  "customSort volume_filter
     [example_pool ''a'' 0 10, example_pool ''b'' 0 1000000000000000000, example_pool ''c'' 0 5]
     = [example_pool ''b'' 0 1000000000000000000, example_pool ''a'' 0 10, example_pool ''c'' 0 5]
   \<and> sorted_wrt (\<lambda>a b. number_value (volume a) \<ge> number_value (volume b))
       (customSort volume_filter
         [example_pool ''a'' 0 10, example_pool ''b'' 0 1000000000000000000,
          example_pool ''c'' 0 5])"
  using customSort_orders [where filterOptions = volume_filter
      and pools = "[example_pool ''a'' 0 10, example_pool ''b'' 0 1000000000000000000,
                    example_pool ''c'' 0 5]"
      and key = "\<lambda>p. number_value (volume p)"]
  by (simp add: customSort_def truthy_str_def Let_def volume_filter_def example_filter_def
      array_sort_def volume_def or_zero_def example_pool_def)

text \<open>Two volumes that differ by one unit at \<open>10\<^sup>1\<^sup>8\<close> are told apart.\<close>

lemma customSort_volume_exact:
  "customSort volume_filter
     [example_pool ''a'' 0 1000000000000000000, example_pool ''b'' 0 1000000000000000001]
     = [example_pool ''b'' 0 1000000000000000001, example_pool ''a'' 0 1000000000000000000]"
  by (simp add: customSort_def truthy_str_def Let_def volume_filter_def example_filter_def
      array_sort_def volume_def or_zero_def example_pool_def)

text \<open>
  Claim C5 as stated fails below the range of doubles: for the volumes
  \<open>2\<^sup>-\<^sup>1\<^sup>0\<^sup>7\<^sup>6\<close> and \<open>2\<^sup>-\<^sup>1\<^sup>0\<^sup>7\<^sup>5\<close> the difference becomes zero in \<^verbatim>\<open>toNumber\<close>, the
  comparator reports a tie both ways, and the list stays in ascending order.
\<close>

theorem customSort_tiny_volumes_unsorted:
  "customSort volume_filter
     [example_pool ''a'' 0 (1 / 2 ^ 1076), example_pool ''b'' 0 (1 / 2 ^ 1075)]
     = [example_pool ''a'' 0 (1 / 2 ^ 1076), example_pool ''b'' 0 (1 / 2 ^ 1075)]
   \<and> volume (example_pool ''a'' 0 (1 / 2 ^ 1076)) = Num (1 / 2 ^ 1076)
   \<and> volume (example_pool ''b'' 0 (1 / 2 ^ 1075)) = Num (1 / 2 ^ 1075)
   \<and> (1::rat) / 2 ^ 1076 < 1 / 2 ^ 1075"
  by (simp add: customSort_def truthy_str_def Let_def volume_filter_def example_filter_def
      array_sort_def volume_def or_zero_def example_pool_def)

section \<open>Properties of the query function of the API version\<close>

lemma getFetchOptions_default:
  "getFetchOptions cfg filterOptions (Some (case pageParam of None \<Rightarrow> 0 | Some p \<Rightarrow> p)) =
     getFetchOptions cfg filterOptions pageParam"
  by (simp add: getFetchOptions_def split: option.split)

text \<open>The \<^verbatim>\<open>skip\<close> of a page: the page size plus the positive part of the page parameter.\<close>

lemma api_skip_value:
  "or_num (o_first (getFetchOptions cfg filterOptions pageParam)) 0
     + or_num (o_skip (getFetchOptions cfg filterOptions pageParam)) 0
   = or_num (f_pageSize filterOptions) (PerPage cfg)
     + (case pageParam of None \<Rightarrow> 0 | Some p \<Rightarrow> if 0 < p then p else 0)"
  by (simp add: getFetchOptions_def or_num_def truthy_num_def Let_def split: option.split)

lemma api_queryFn_page_skip:
  "fst (api_queryFn cfg svc filterOptions pageParam st) = Inr page \<Longrightarrow>
   r_skip page = Some (or_num (f_pageSize filterOptions) (PerPage cfg)
                   + (case pageParam of None \<Rightarrow> 0 | Some p \<Rightarrow> if 0 < p then p else 0))"
  by (auto simp: api_queryFn_def getFetchOptions_default api_skip_value Let_def
      split: prod.splits sum.splits option.splits if_splits)

text \<open>
  Claim C2, as amended. When the request to the API is rejected and the store holds a
  non-empty set, the query function resolves with exactly that set and with the same
  \<^verbatim>\<open>skip\<close> a successful fetch returns (page size plus requested offset), and the state is
  unchanged; when the store is unset or empty, the rejection is passed on unchanged.
\<close>

theorem cache_fallback_on_failure:
  "pools_get svc (api_getQueryArgs cfg svc filterOptions (getFetchOptions cfg filterOptions pageParam))
     = Inl e \<longrightarrow>
     (store st = Some saved \<and> saved \<noteq> [] \<longrightarrow>
        api_queryFn cfg svc filterOptions pageParam st =
          (Inr \<lparr> r_pools = saved,
                 r_skip = Some (or_num (f_pageSize filterOptions) (PerPage cfg)
                            + (case pageParam of None \<Rightarrow> 0 | Some p \<Rightarrow> if 0 < p then p else 0)) \<rparr>,
           st))
   \<and> (store st = None \<or> store st = Some [] \<longrightarrow>
        api_queryFn cfg svc filterOptions pageParam st = (Inl e, st))"
proof (intro impI conjI)
  assume fails:
    "pools_get svc (api_getQueryArgs cfg svc filterOptions (getFetchOptions cfg filterOptions pageParam))
       = Inl e"
  have fetch: "api_fetch cfg svc filterOptions (getFetchOptions cfg filterOptions pageParam) st
      = (Inl e, st)"
    using fails by (simp add: api_fetch_def)
  {
    assume "store st = Some saved \<and> saved \<noteq> []"
    then show "api_queryFn cfg svc filterOptions pageParam st =
          (Inr \<lparr> r_pools = saved,
                 r_skip = Some (or_num (f_pageSize filterOptions) (PerPage cfg)
                            + (case pageParam of None \<Rightarrow> 0 | Some p \<Rightarrow> if 0 < p then p else 0)) \<rparr>,
           st)"
      using fetch by (simp add: api_queryFn_def getFetchOptions_default api_skip_value Let_def)
  next
    assume "store st = None \<or> store st = Some []"
    then show "api_queryFn cfg svc filterOptions pageParam st = (Inl e, st)"
      using fetch by (auto simp: api_queryFn_def getFetchOptions_default Let_def)
  }
qed

theorem cache_fallback_on_failure_witness:
  "api_queryFn example_config (example_services failing_get) (example_filter [] None (Some 10))
       (Some 20) saved_state
     = (Inr \<lparr> r_pools = [example_pool ''0xp1'' 1 1], r_skip = Some 30 \<rparr>, saved_state)
   \<and> api_queryFn example_config (example_services failing_get) (example_filter [] None (Some 10))
       (Some 20) empty_state
     = (Inl (SourceUnavailable ''503''), empty_state)"
  using
    cache_fallback_on_failure [of "example_services failing_get" example_config
      "example_filter [] None (Some 10)" "Some 20" "SourceUnavailable ''503''" saved_state
      "[example_pool ''0xp1'' 1 1]"]
    cache_fallback_on_failure [of "example_services failing_get" example_config
      "example_filter [] None (Some 10)" "Some 20" "SourceUnavailable ''503''" empty_state
      "[]"]
  by (simp add: example_services_def failing_get_def saved_state_def empty_state_def
      example_filter_def or_num_def truthy_num_def)

text \<open>
  Claim C2 as stated fails on the cursor: for the requested offset \<open>0\<close> and the page
  size \<open>10\<close>, the page served from the store carries \<^verbatim>\<open>skip: 10\<close>, not the requested
  cursor.
\<close>

theorem cache_fallback_cursor_is_next_offset:
  "fst (api_queryFn example_config (example_services failing_get)
       (example_filter [] None (Some 10)) (Some 0) saved_state)
     = Inr \<lparr> r_pools = [example_pool ''0xp1'' 1 1], r_skip = Some 10 \<rparr>
   \<and> fst (api_queryFn example_config (example_services failing_get)
       (example_filter [] None (Some 10)) (Some 0) saved_state)
     \<noteq> Inr \<lparr> r_pools = [example_pool ''0xp1'' 1 1], r_skip = Some 0 \<rparr>"
  by (simp add: api_queryFn_def api_fetch_def getFetchOptions_def example_services_def
      failing_get_def saved_state_def example_filter_def or_num_def truthy_num_def Let_def)


section \<open>Properties of the fallback chain\<close>

text \<open>
  A chain whose first providers all fail and whose next provider succeeds: the result is
  that provider's, its index is the number of failed providers, and what follows it in
  the chain is never consulted.
\<close>

lemma fallbackQuery_first_success:
  "\<forall>p\<in>set failing. isl (fst (p query)) \<Longrightarrow> good query = (Inr pools, cursor) \<Longrightarrow>
   fallbackQuery (failing @ good # rest) query failures =
     Inr \<lparr> fb_pools = pools, fb_currentProviderIdx = length failures + length failing,
           fb_skip = cursor \<rparr>"
proof (induction failing arbitrary: failures)
  case Nil
  then show ?case by simp
next
  case (Cons p ps)
  then obtain e sk where "p query = (Inl e, sk)"
    by (cases "p query") (auto simp: isl_def)
  with Cons show ?case by simp
qed

lemma fallbackQuery_all_fail:
  "\<forall>p\<in>set chain. isl (fst (p query)) \<Longrightarrow>
   fallbackQuery chain query failures =
     Inl (AllSourcesFailed (rev failures @ map (\<lambda>p. projl (fst (p query))) chain))"
proof (induction chain arbitrary: failures)
  case Nil
  then show ?case by simp
next
  case (Cons p ps)
  then obtain e sk where "p query = (Inl e, sk)"
    by (cases "p query") (auto simp: isl_def)
  with Cons show ?case by simp
qed

text \<open>
  Claim C3. For a chain in which the providers of \<open>failing\<close> fail and \<open>good\<close> is the
  first to succeed, the fallback repository stops at \<open>good\<close> (the current provider's
  index is the number of failed providers) and the query function resolves with the pools
  of \<open>good\<close>, whatever follows in the chain. The page's cursor is the cursor of \<open>good\<close>,
  absent and empty being one signal: it is that very string when the cursor of \<open>good\<close>
  is not empty, and no cursor otherwise; the cursor of a failed provider is never used.
  When every provider fails, the query function rejects with the aggregate of their
  failures, in chain order.
\<close>

theorem fallback_first_success_and_cursor:
  "((\<forall>p\<in>set failing. isl (fst (p query))) \<and> good query = (Inr pools, cursor) \<longrightarrow>
      fallback_fetch (failing @ good # rest) query =
        Inr \<lparr> fb_pools = pools, fb_currentProviderIdx = length failing, fb_skip = cursor \<rparr>
      \<and> (\<exists>page. gql_queryFn_on (failing @ good # rest) query = Inr page
         \<and> p_pools page = pools
         \<and> same_cursor (p_skip page) cursor
         \<and> (\<forall>c. cursor = Some c \<and> c \<noteq> [] \<longrightarrow> p_skip page = Some c)
         \<and> (cursor = None \<or> cursor = Some [] \<longrightarrow> p_skip page = None)))
   \<and> ((\<forall>p\<in>set chain. isl (fst (p query))) \<longrightarrow>
      gql_queryFn_on chain query =
        Inl (AllSourcesFailed (map (\<lambda>p. projl (fst (p query))) chain)))"
proof (intro conjI impI)
  assume "(\<forall>p\<in>set failing. isl (fst (p query))) \<and> good query = (Inr pools, cursor)"
  then show current: "fallback_fetch (failing @ good # rest) query =
      Inr \<lparr> fb_pools = pools, fb_currentProviderIdx = length failing, fb_skip = cursor \<rparr>"
    unfolding fallback_fetch_def
    using fallbackQuery_first_success [of failing query good pools cursor rest "[]"]
    by simp
  then show "\<exists>page. gql_queryFn_on (failing @ good # rest) query = Inr page
         \<and> p_pools page = pools
         \<and> same_cursor (p_skip page) cursor
         \<and> (\<forall>c. cursor = Some c \<and> c \<noteq> [] \<longrightarrow> p_skip page = Some c)
         \<and> (cursor = None \<or> cursor = Some [] \<longrightarrow> p_skip page = None)"
    by (auto simp: gql_queryFn_on_def truthy_str_def same_cursor_def cursor_signal_def)
next
  assume "\<forall>p\<in>set chain. isl (fst (p query))"
  then show "gql_queryFn_on chain query =
        Inl (AllSourcesFailed (map (\<lambda>p. projl (fst (p query))) chain))"
    by (simp add: gql_queryFn_on_def fallback_fetch_def fallbackQuery_all_fail)
qed

text \<open>
  The scenario of the spec: the first provider fails (its own cursor is \<^verbatim>\<open>'9'\<close>), the
  second returns two pools with the cursor \<^verbatim>\<open>'5'\<close>.
\<close>

theorem fallback_first_success_and_cursor_witness:
  "gql_queryFn_on
       [failing_provider,
        succeeding_provider [example_pool ''0xp1'' 1 1, example_pool ''0xp2'' 2 2] (Some ''5'')]
       example_query
     = Inr \<lparr> p_pools = [example_pool ''0xp1'' 1 1, example_pool ''0xp2'' 2 2],
             p_skip = Some ''5'', p_enabled = True \<rparr>
   \<and> gql_queryFn_on [failing_provider, failing_provider] example_query
     = Inl (AllSourcesFailed [SourceUnavailable ''api down'', SourceUnavailable ''api down''])"
  using fallback_first_success_and_cursor [of "[failing_provider]" example_query
      "succeeding_provider [example_pool ''0xp1'' 1 1, example_pool ''0xp2'' 2 2] (Some ''5'')"
      "[example_pool ''0xp1'' 1 1, example_pool ''0xp2'' 2 2]" "Some ''5''" "[]"
      "[failing_provider, failing_provider]"]
  by (simp add: gql_queryFn_on_def fallback_fetch_def failing_provider_def
      succeeding_provider_def truthy_str_def)

text \<open>
  The end-of-pagination signal in its two forms: when the succeeding provider's
  \<^verbatim>\<open>skip\<close> is the empty string, the page carries no cursor (\<^verbatim>\<open>undefined\<close>).
\<close>

lemma empty_cursor_is_dropped:
  "gql_queryFn_on [failing_provider, succeeding_provider [example_pool ''0xp1'' 1 1] (Some [])]
       example_query
     = Inr \<lparr> p_pools = [example_pool ''0xp1'' 1 1], p_skip = None, p_enabled = True \<rparr>
   \<and> snd (succeeding_provider [example_pool ''0xp1'' 1 1] (Some []) example_query) = Some []"
  by (simp add: gql_queryFn_on_def fallback_fetch_def failing_provider_def
      succeeding_provider_def truthy_str_def)

text \<open>
  The chain the hook builds: when the API repository fails and the subgraph repository
  succeeds, the page holds the decorated pools and the subgraph repository's cursor.
\<close>

lemma gql_queryFn_falls_back_to_subgraph:
  assumes "balancerApiRepository svc (gql_getQueryArgs cfg tokenList gqlOptions pageParam) = (Inl e, k)"
    and "subgraphRepository svc (gql_getQueryArgs cfg tokenList gqlOptions pageParam) = (Inr raw, Some c)"
    and "decorate svc (case gauges of None \<Rightarrow> [] | Some gs \<Rightarrow> gs) raw = Inr decorated"
    and "c \<noteq> []"
  shows "gql_queryFn cfg svc tokenList gqlOptions gauges pageParam =
    Inr \<lparr> p_pools = decorated, p_skip = Some c, p_enabled = True \<rparr>"
proof -
  have "gql_getQueryArgs cfg tokenList gqlOptions (Some (case pageParam of None \<Rightarrow> [] | Some s \<Rightarrow> s))
      = gql_getQueryArgs cfg tokenList gqlOptions pageParam"
    by (simp add: gql_getQueryArgs_def split: option.split)
  with assms show ?thesis
    by (simp add: gql_queryFn_def gql_queryFn_on_def fallback_fetch_def
        initializePoolsRepository_def initializeDecoratedAPIRepository_def
        initializeDecoratedSubgraphRepository_def truthy_str_def Let_def)
qed

section \<open>Properties of the pagination\<close>




text \<open>
  For a positive default page size and a page size that is not negative, every page of
  the API version carries a positive \<^verbatim>\<open>skip\<close>.
\<close>

lemma api_pages_have_positive_skip:
  assumes ok: "fst (api_queryFn cfg svc filterOptions pageParam st) = Inr apage"
    and sane: "0 < PerPage cfg \<and> (\<forall>n. f_pageSize filterOptions = Some n \<longrightarrow> 0 \<le> n)"
  shows "\<exists>c. r_skip apage = Some c \<and> 0 < c"
proof -
  have "0 < or_num (f_pageSize filterOptions) (PerPage cfg)"
    using sane by (cases "f_pageSize filterOptions") (auto simp: or_num_def)
  moreover have "0 \<le> (case pageParam of None \<Rightarrow> 0 | Some p \<Rightarrow> if 0 < p then p else (0::int))"
    by (simp split: option.split)
  ultimately show ?thesis
    using api_queryFn_page_skip [OF ok] by simp
qed






lemma refetchFromStart_idem: "refetchFromStart (refetchFromStart q) = refetchFromStart q"
  by (simp add: refetchFromStart_def onFilterOptionsChange_def setPools_def)

text \<open>
  Claim C7. After any number of fetch-next calls, refetching from start leaves the
  controller in \<open>HasMore\<close> with no cursor, the store holding the empty list and no
  pages; doing it twice is the same as doing it once; and when the next fetch adds a
  page, the store holds the pools of that page only.
\<close>

theorem refetch_from_start_resets:
  "q_pagination (refetchFromStart (fetchNextPages cfg filterOptions svcs q)) = HasMore None
   \<and> store (q_hook (refetchFromStart (fetchNextPages cfg filterOptions svcs q))) = Some []
   \<and> q_pages (refetchFromStart (fetchNextPages cfg filterOptions svcs q)) = []
   \<and> refetchFromStart (refetchFromStart (fetchNextPages cfg filterOptions svcs q))
       = refetchFromStart (fetchNextPages cfg filterOptions svcs q)
   \<and> (q_pages (fetchNextPage cfg newOptions svc
          (refetchFromStart (fetchNextPages cfg filterOptions svcs q))) = [page]
        \<longrightarrow> store (q_hook (fetchNextPage cfg newOptions svc
                (refetchFromStart (fetchNextPages cfg filterOptions svcs q))))
              = Some (r_pools page))"
proof -
  define q0 where "q0 = fetchNextPages cfg filterOptions svcs q"
  have cursor: "q_pagination (refetchFromStart q0) = HasMore None"
    by (simp add: refetchFromStart_def initialPagination_def)
  have emptied: "store (q_hook (refetchFromStart q0)) = Some []"
    by (simp add: refetchFromStart_def onFilterOptionsChange_def setPools_def)
  have no_pages: "q_pages (refetchFromStart q0) = []"
    by (simp add: refetchFromStart_def)
  have first_page: "q_pages (fetchNextPage cfg newOptions svc (refetchFromStart q0)) = [page]
        \<longrightarrow> store (q_hook (fetchNextPage cfg newOptions svc (refetchFromStart q0)))
              = Some (r_pools page)"
    using cursor emptied no_pages
    by (auto simp: fetchNextPage_def api_queryFn_def api_fetch_def addPools_def Let_def
        split: prod.splits sum.splits option.splits if_splits)
  show ?thesis
    using cursor emptied no_pages first_page refetchFromStart_idem [of q0]
    unfolding q0_def by simp
qed

text \<open>
  Two fetch-next calls (the second one rejected and served from the store) leave one
  pool in the store and the cursor at \<open>20\<close>; the refetch from start clears both.
\<close>

lemma two_fetches_accumulate:
  "store (q_hook (fetchNextPages example_config (example_filter [] None None)
       [example_services (constant_get [example_pool ''0xp1'' 1 1]),
        example_services failing_get] fresh_query))
     = Some [example_pool ''0xp1'' 1 1]
   \<and> q_pagination (fetchNextPages example_config (example_filter [] None None)
       [example_services (constant_get [example_pool ''0xp1'' 1 1]),
        example_services failing_get] fresh_query)
     = HasMore (Some 20)"
  by (simp add: fetchNextPage_def api_queryFn_def api_fetch_def getFetchOptions_def
      api_getQueryArgs_def api_getNextPageParam_def afterPage_def addPools_def
      example_services_def constant_get_def failing_get_def example_filter_def
      example_config_def fresh_query_def empty_state_def initialPagination_def
      customSort_def or_num_def truthy_num_def truthy_str_def has_length_def Let_def)

theorem refetch_from_start_resets_witness:
  "q_pagination (refetchFromStart (fetchNextPages example_config (example_filter [] None None)
       [example_services (constant_get [example_pool ''0xp1'' 1 1]),
        example_services failing_get] fresh_query))
     = HasMore None
   \<and> store (q_hook (refetchFromStart (fetchNextPages example_config (example_filter [] None None)
       [example_services (constant_get [example_pool ''0xp1'' 1 1]),
        example_services failing_get] fresh_query)))
     = Some []
   \<and> store (q_hook (fetchNextPage example_config (example_filter [''0xAAA''] None None)
       (example_services (constant_get [example_pool ''0xp2'' 2 2]))
       (refetchFromStart (fetchNextPages example_config (example_filter [] None None)
         [example_services (constant_get [example_pool ''0xp1'' 1 1]),
          example_services failing_get] fresh_query))))
     = Some [example_pool ''0xp2'' 2 2]"
  using refetch_from_start_resets [where cfg = example_config
      and filterOptions = "example_filter [] None None"
      and svcs = "[example_services (constant_get [example_pool ''0xp1'' 1 1]),
                   example_services failing_get]"
      and q = fresh_query
      and newOptions = "example_filter [''0xAAA''] None None"
      and svc = "example_services (constant_get [example_pool ''0xp2'' 2 2])"
      and page = "\<lparr> r_pools = [example_pool ''0xp2'' 2 2], r_skip = Some 10 \<rparr>"]
  by (simp add: refetchFromStart_def onFilterOptionsChange_def setPools_def
      fetchNextPage_def api_queryFn_def api_fetch_def getFetchOptions_def
      api_getNextPageParam_def afterPage_def addPools_def
      example_services_def constant_get_def example_filter_def
      example_config_def initialPagination_def
      customSort_def or_num_def truthy_num_def truthy_str_def Let_def)

end
